theory Spec2Isabelle
  imports Complex_Main "HOL-Library.Sublist" "HOL-Library.AList"
begin

section \<open>JavaScript preliminaries\<close>

text \<open>
  A thrown \<^verbatim>\<open>new Error(message)\<close> is the value \<open>Error message\<close>; a function that may
  throw returns \<open>error + 'a\<close> with \<open>Inl\<close> for the throw. In the two services a number is
  an exact real and a field that may be \<^verbatim>\<open>undefined\<close> has an option type. The cart
  store computes with whatever its items hold: its numbers have \<^verbatim>\<open>NaN\<close>, the infinities
  and rounding.
\<close>

datatype error = Error string

text \<open>
  A JavaScript \<^verbatim>\<open>Map\<close> keeps its entries in insertion order with one entry per key:
  an association list, \<^verbatim>\<open>get\<close> is \<open>map_of\<close>, \<^verbatim>\<open>set\<close> is \<open>AList.update\<close> (replace
  in place or append), \<^verbatim>\<open>delete\<close> is \<open>AList.delete\<close>.
\<close>

section \<open>sessionValidationService.js\<close>

text \<open>The fields of a \<^verbatim>\<open>users/{uid}\<close> document that the service reads.\<close>

record userData =
  role :: string
  suspended :: bool
  deactivated :: bool

record cacheEntry =
  hasPermission :: bool
  userData :: userData
  timestamp :: int

type_synonym sessionCache = "(string \<times> cacheEntry) list"

text \<open>\<^verbatim>\<open>this.cacheTimeout = 5 * 60 * 1000\<close>, in milliseconds.\<close>

definition cacheTimeout :: int where
  "cacheTimeout = 5 * 60 * 1000"

text \<open>The template string \<^verbatim>\<open>`${currentUser.uid}_${requiredRole}`\<close>.\<close>

definition cacheKey :: "string \<Rightarrow> string \<Rightarrow> string" where
  "cacheKey uid requiredRole = uid @ ''_'' @ requiredRole"

text \<open>
  The outcome of one call: what is returned or thrown, the cache afterwards, and the
  number of \<^verbatim>\<open>getDoc\<close> calls on the \<^verbatim>\<open>users\<close> collection that the call issued.
\<close>

record 'a outcome =
  result :: "error + 'a"
  cache :: sessionCache
  reads :: nat

text \<open>
  The part of \<^verbatim>\<open>validateUserRole\<close> after the cache check (lines 32 to 64): the
  re-fetch from Firestore. \<open>users\<close> is the \<^verbatim>\<open>users\<close> collection and \<open>now_store\<close> the
  value of \<^verbatim>\<open>Date.now()\<close> when the entry is written.
\<close>

definition refetch ::
  "(string \<rightharpoonup> userData) \<Rightarrow> int \<Rightarrow> string \<Rightarrow> string \<Rightarrow> sessionCache \<Rightarrow> userData outcome" where
  "refetch users now_store uid requiredRole c =
     (case users uid of
        None \<Rightarrow> \<lparr>result = Inl (Error ''User document not found''), cache = c, reads = 1\<rparr>
      | Some ud \<Rightarrow>
          if suspended ud then
            \<lparr>result = Inl (Error ''User account suspended''), cache = c, reads = 1\<rparr>
          else if deactivated ud then
            \<lparr>result = Inl (Error ''User account deactivated''), cache = c, reads = 1\<rparr>
          else
            let hp = (role ud = requiredRole);
                c' = AList.update (cacheKey uid requiredRole)
                       \<lparr>hasPermission = hp, userData = ud, timestamp = now_store\<rparr> c
            in if \<not> hp then
                 \<lparr>result = Inl (Error (''Access denied. Required role: '' @ requiredRole
                                         @ '', current role: '' @ role ud)),
                  cache = c', reads = 1\<rparr>
               else \<lparr>result = Inr ud, cache = c', reads = 1\<rparr>)"

text \<open>
  \<^verbatim>\<open>validateUserRole(requiredRole)\<close>. \<open>currentUser\<close> is \<^verbatim>\<open>auth.currentUser\<close> (its uid,
  \<open>None\<close> when signed out) and \<open>now\<close> the value of \<^verbatim>\<open>Date.now()\<close> at the cache check.
\<close>

definition validateUserRole ::
  "string option \<Rightarrow> (string \<rightharpoonup> userData) \<Rightarrow> int \<Rightarrow> int \<Rightarrow> string \<Rightarrow> sessionCache
     \<Rightarrow> userData outcome" where
  "validateUserRole currentUser users now now_store requiredRole c =
     (case currentUser of
        None \<Rightarrow> \<lparr>result = Inl (Error ''User not authenticated''), cache = c, reads = 0\<rparr>
      | Some uid \<Rightarrow>
          (case map_of c (cacheKey uid requiredRole) of
             Some cached \<Rightarrow>
               if now - timestamp cached < cacheTimeout then
                 (if \<not> hasPermission cached then
                    \<lparr>result = Inl (Error ''Insufficient permissions''), cache = c, reads = 0\<rparr>
                  else \<lparr>result = Inr (userData cached), cache = c, reads = 0\<rparr>)
               else refetch users now_store uid requiredRole c
           | None \<Rightarrow> refetch users now_store uid requiredRole c))"

text \<open>The permission matrix of \<^verbatim>\<open>checkPermission\<close>: role, then resource, then actions.\<close>

definition permissions :: "(string \<times> (string \<times> string list) list) list" where
  "permissions =
     [(''admin'',
        [(''products'', [''create'', ''read'', ''update'', ''delete'']),
         (''orders'', [''read'', ''update'', ''delete'']),
         (''users'', [''read'', ''update'']),
         (''analytics'', [''read'']),
         (''settings'', [''read'', ''update''])]),
      (''editor'',
        [(''products'', [''create'', ''read'', ''update'']),
         (''orders'', [''read'', ''update'']),
         (''analytics'', [''read''])]),
      (''support'',
        [(''orders'', [''read'', ''update'']),
         (''users'', [''read''])]),
      (''customer'',
        [(''orders'', [''read'']),
         (''profile'', [''read'', ''update''])])]"

text \<open>
  \<^verbatim>\<open>permissions[role] || {}\<close>, then \<^verbatim>\<open>userPermissions[resource] || []\<close>, then
  \<^verbatim>\<open>includes(action)\<close>. The resource defaults to \<^verbatim>\<open>null\<close>, which no role lists.
\<close>

definition matrix_allows :: "string \<Rightarrow> string option \<Rightarrow> string \<Rightarrow> bool" where
  "matrix_allows r resource action =
     (let userPermissions = (case map_of permissions r of None \<Rightarrow> [] | Some ps \<Rightarrow> ps);
          resourcePermissions =
            (case resource of
               None \<Rightarrow> []
             | Some res \<Rightarrow> (case map_of userPermissions res of None \<Rightarrow> [] | Some as \<Rightarrow> as))
      in action \<in> set resourcePermissions)"

text \<open>
  \<^verbatim>\<open>checkPermission(action, resource)\<close>. Its first statement is
  \<^verbatim>\<open>await this.validateUserRole()\<close>, with no argument, so the required role is the
  default \<^verbatim>\<open>'admin'\<close>.
\<close>

text \<open>
  The rows of the matrix are plain objects, so \<^verbatim>\<open>userPermissions[resource]\<close> also finds
  what every object inherits from \<^verbatim>\<open>Object.prototype\<close>. For these names it yields a
  function (for \<^verbatim>\<open>__proto__\<close> an object), which is truthy and has no \<^verbatim>\<open>includes\<close>: the
  call \<^verbatim>\<open>resourcePermissions.includes(action)\<close> throws a \<^verbatim>\<open>TypeError\<close>. This holds under
  every role, also one the matrix does not list. (A role that is itself one of these
  names selects a built-in object in place of a row; its further properties are not
  modelled.)
\<close>

definition object_prototype_names :: "string list" where
  "object_prototype_names =
     [''constructor'', ''__proto__'', ''toString'', ''toLocaleString'', ''valueOf'',
      ''hasOwnProperty'', ''isPrototypeOf'', ''propertyIsEnumerable'', ''__defineGetter__'',
      ''__defineSetter__'', ''__lookupGetter__'', ''__lookupSetter__'']"

definition inherited_resource :: "string option \<Rightarrow> bool" where
  "inherited_resource resource =
     (case resource of None \<Rightarrow> False | Some res \<Rightarrow> res \<in> set object_prototype_names)"

definition resource_text :: "string option \<Rightarrow> string" where
  "resource_text resource = (case resource of None \<Rightarrow> ''null'' | Some res \<Rightarrow> res)"

definition checkPermission ::
  "string option \<Rightarrow> (string \<rightharpoonup> userData) \<Rightarrow> int \<Rightarrow> int \<Rightarrow> string \<Rightarrow> string option
     \<Rightarrow> sessionCache \<Rightarrow> bool outcome" where
  "checkPermission currentUser users now now_store action resource c =
     (let v = validateUserRole currentUser users now now_store ''admin'' c
      in case result v of
           Inl e \<Rightarrow> \<lparr>result = Inl e, cache = cache v, reads = reads v\<rparr>
         | Inr ud \<Rightarrow>
             if inherited_resource resource then
               \<lparr>result = Inl (Error ''resourcePermissions.includes is not a function''),
                cache = cache v, reads = reads v\<rparr>
             else if \<not> matrix_allows (role ud) resource action then
               \<lparr>result = Inl (Error (''Permission denied: '' @ role ud @ '' cannot '' @ action
                                       @ '' '' @ resource_text resource)),
                cache = cache v, reads = reads v\<rparr>
             else \<lparr>result = Inr True, cache = cache v, reads = reads v\<rparr>)"

text \<open>
  \<^verbatim>\<open>clearCache(userId = null)\<close>. \<^verbatim>\<open>if (userId)\<close> is false for \<^verbatim>\<open>null\<close> and for the
  empty string; otherwise the loop visits every key of the map and deletes those that
  start with \<open>userId\<close>.
\<close>

definition clearCache :: "string option \<Rightarrow> sessionCache \<Rightarrow> sessionCache" where
  "clearCache userId c =
     (case userId of
        None \<Rightarrow> []
      | Some u \<Rightarrow>
          if u \<noteq> [] then
            fold (\<lambda>key m. if prefix u key then AList.delete key m else m) (map fst c) c
          else [])"

section \<open>businessLogicService.js\<close>

subsection \<open>Data\<close>

text \<open>
  The fields that \<^verbatim>\<open>validateProductData\<close> requires. A field that is \<^verbatim>\<open>undefined\<close> is
  \<open>None\<close>; text fields hold strings and numeric fields hold numbers.
\<close>

record productData =
  name :: "string option"
  description :: "string option"
  price :: "real option"
  category :: "string option"
  quantityAvailable :: "real option"

text \<open>A \<^verbatim>\<open>products/{id}\<close> document: the product data and what \<^verbatim>\<open>createProduct\<close> adds.\<close>

record product = productData +
  createdAt :: string
  updatedAt :: string
  active :: bool
  featured :: bool
  rating :: real
  reviewCount :: real

text \<open>An order item is a product snapshot with the product's id and the ordered quantity.\<close>

record orderItem = productData +
  item_id :: string
  quantity :: real

record shipping =
  address :: "string option"

record orderData =
  items :: "orderItem list option"
  shipping :: "shipping option"
  total :: "real option"

record order = orderData +
  userId :: string
  orderNumber :: string
  status :: string
  order_createdAt :: string

text \<open>The collections of the document store that the service touches, and the console.\<close>

record db =
  users :: "string \<rightharpoonup> userData"
  products :: "string \<rightharpoonup> product"
  orders :: "string \<rightharpoonup> order"
  console :: "string list"

subsection \<open>JavaScript truthiness and comparison on optional fields\<close>

text \<open>\<^verbatim>\<open>!s\<close> for a string or \<^verbatim>\<open>undefined\<close>: true for \<^verbatim>\<open>undefined\<close> and the empty string.\<close>

definition falsy_str :: "string option \<Rightarrow> bool" where
  "falsy_str v = (case v of None \<Rightarrow> True | Some s \<Rightarrow> s = [])"

text \<open>\<^verbatim>\<open>!x\<close> for a number or \<^verbatim>\<open>undefined\<close>: true for \<^verbatim>\<open>undefined\<close> and for \<open>0\<close>.\<close>

definition falsy_num :: "real option \<Rightarrow> bool" where
  "falsy_num v = (case v of None \<Rightarrow> True | Some x \<Rightarrow> x = 0)"

text \<open>\<^verbatim>\<open>a < b\<close> and \<^verbatim>\<open>a <= b\<close>: false when \<open>a\<close> is \<^verbatim>\<open>undefined\<close> (it converts to \<^verbatim>\<open>NaN\<close>).\<close>

definition js_lt :: "real option \<Rightarrow> real \<Rightarrow> bool" where
  "js_lt a b = (case a of None \<Rightarrow> False | Some x \<Rightarrow> x < b)"

definition js_le :: "real option \<Rightarrow> real \<Rightarrow> bool" where
  "js_le a b = (case a of None \<Rightarrow> False | Some x \<Rightarrow> x \<le> b)"

text \<open>\<^verbatim>\<open>a - b\<close>: \<^verbatim>\<open>NaN\<close>, written \<open>None\<close>, when \<open>a\<close> is \<^verbatim>\<open>undefined\<close>.\<close>

definition js_minus :: "real option \<Rightarrow> real \<Rightarrow> real option" where
  "js_minus a b = map_option (\<lambda>x. x - b) a"

text \<open>A string or \<^verbatim>\<open>undefined\<close> inside a template string.\<close>

definition str_text :: "string option \<Rightarrow> string" where
  "str_text v = (case v of None \<Rightarrow> ''undefined'' | Some s \<Rightarrow> s)"

subsection \<open>Product validation and creation\<close>

definition required :: "string list" where
  "required = [''name'', ''description'', ''price'', ''category'', ''quantityAvailable'']"

text \<open>\<^verbatim>\<open>!productData[field]\<close> for the fields of \<open>required\<close>.\<close>

definition falsy_field :: "'a productData_scheme \<Rightarrow> string \<Rightarrow> bool" where
  "falsy_field pd field =
     (if field = ''name'' then falsy_str (name pd)
      else if field = ''description'' then falsy_str (description pd)
      else if field = ''price'' then falsy_num (price pd)
      else if field = ''category'' then falsy_str (category pd)
      else if field = ''quantityAvailable'' then falsy_num (quantityAvailable pd)
      else True)"

text \<open>\<^verbatim>\<open>validateProductData\<close>: the loop throws at the first falsy required field.\<close>

definition validateProductData :: "'a productData_scheme \<Rightarrow> error + unit" where
  "validateProductData pd =
     (case find (falsy_field pd) required of
        Some field \<Rightarrow> Inl (Error (''Missing required field: '' @ field))
      | None \<Rightarrow>
          if js_le (price pd) 0 then Inl (Error ''Price must be greater than 0'')
          else if js_lt (quantityAvailable pd) 0 then Inl (Error ''Quantity cannot be negative'')
          else Inr ())"

text \<open>
  \<^verbatim>\<open>syncProductToSearch\<close>: the search service is outside the repository, so whether
  \<^verbatim>\<open>indexProduct\<close> threw (\<open>Some message\<close>) is an input. The catch block logs and does
  not rethrow, so the function has no error result; it returns the console.
\<close>

definition syncProductToSearch :: "string option \<Rightarrow> string list \<Rightarrow> string list" where
  "syncProductToSearch indexProduct_threw con =
     (case indexProduct_threw of
        None \<Rightarrow> con
      | Some msg \<Rightarrow> con @ [''Failed to sync to search: '' @ msg])"

text \<open>
  What \<^verbatim>\<open>createProduct\<close> gets from outside: the two readings of the clock (for
  \<^verbatim>\<open>createdAt\<close> and for \<^verbatim>\<open>updatedAt\<close>), the result of \<^verbatim>\<open>addDoc\<close> (the new document's id,
  or the message of its error) and whether
  \<^verbatim>\<open>inventoryService.initializeInventory\<close> and \<^verbatim>\<open>searchService.indexProduct\<close> threw.
\<close>

record createEnv =
  created_iso :: string
  updated_iso :: string
  addDoc_result :: "string + string"
  initializeInventory_threw :: "string option"
  indexProduct_threw :: "string option"

definition createProduct ::
  "createEnv \<Rightarrow> productData \<Rightarrow> string \<Rightarrow> db \<Rightarrow> (error + string \<times> product) \<times> db" where
  "createProduct env pd userRole d =
     (if userRole \<noteq> ''admin'' then
        (Inl (Error ''Insufficient permissions to create products''), d)
      else
        (case validateProductData pd of
           Inl e \<Rightarrow> (Inl e, d)
         | Inr _ \<Rightarrow>
            (let p = productData.extend pd
                       (product.fields (created_iso env) (updated_iso env) True False 0 0)
             in (case addDoc_result env of
                   Inl msg \<Rightarrow> (Inl (Error (''Failed to create product: '' @ msg)), d)
                 | Inr new_id \<Rightarrow>
                    (let d1 = d\<lparr>products := (products d)(new_id \<mapsto> p)\<rparr>
                     in (case initializeInventory_threw env of
                           Some msg \<Rightarrow>
                             (Inl (Error (''Failed to create product: '' @ msg)), d1)
                         | None \<Rightarrow>
                             (Inr (new_id, p),
                              d1\<lparr>console :=
                                   syncProductToSearch (indexProduct_threw env) (console d1)\<rparr>)))))))"

subsection \<open>Order processing\<close>

text \<open>\<^verbatim>\<open>validateActiveSession\<close>: one read of \<^verbatim>\<open>users/{userId}\<close>.\<close>

definition validateActiveSession :: "db \<Rightarrow> string \<Rightarrow> error + userData" where
  "validateActiveSession d uid =
     (case users d uid of
        None \<Rightarrow> Inl (Error ''Invalid user session'')
      | Some ud \<Rightarrow> if suspended ud then Inl (Error ''User account suspended'') else Inr ud)"

text \<open>The loop of \<^verbatim>\<open>validateOrderData\<close> over the items, reading each product.\<close>

fun validateItems :: "(string \<rightharpoonup> product) \<Rightarrow> orderItem list \<Rightarrow> error + unit" where
  "validateItems ps [] = Inr ()"
| "validateItems ps (item # rest) =
     (case ps (item_id item) of
        None \<Rightarrow> Inl (Error (''Product '' @ item_id item @ '' not found''))
      | Some p \<Rightarrow>
          if js_lt (quantityAvailable p) (quantity item) then
            Inl (Error (''Insufficient stock for '' @ str_text (name p)))
          else validateItems ps rest)"

definition validateOrderData :: "db \<Rightarrow> 'a orderData_scheme \<Rightarrow> error + unit" where
  "validateOrderData d od =
     (case items od of
        None \<Rightarrow> Inl (Error ''Order must contain at least one item'')
      | Some its \<Rightarrow>
          if its = [] then Inl (Error ''Order must contain at least one item'')
          else
            (case shipping od of
               None \<Rightarrow> Inl (Error ''Shipping address is required'')
             | Some sh \<Rightarrow>
                 if falsy_str (address sh) then Inl (Error ''Shipping address is required'')
                 else validateItems (products d) its))"

text \<open>
  \<^verbatim>\<open>validateInventoryAvailability\<close>. \<^verbatim>\<open>inventoryService\<close> is outside the repository:
  \<open>checkAvailability\<close> is what its call answers for a product id, \<open>Inl\<close> when it throws.
\<close>

fun validateInventoryAvailability ::
  "(string \<Rightarrow> string + real) \<Rightarrow> orderItem list \<Rightarrow> error + unit" where
  "validateInventoryAvailability checkAvailability [] = Inr ()"
| "validateInventoryAvailability checkAvailability (item # rest) =
     (case checkAvailability (item_id item) of
        Inl msg \<Rightarrow> Inl (Error msg)
      | Inr available \<Rightarrow>
          if available < quantity item then
            Inl (Error (''Insufficient inventory for product '' @ item_id item))
          else validateInventoryAvailability checkAvailability rest)"

text \<open>\<^verbatim>\<open>`ORD-${Date.now()}-${Math.random().toString(36).substr(2, 9)}`\<close>, from its two texts.\<close>

definition generateOrderNumber :: "string \<Rightarrow> string \<Rightarrow> string" where
  "generateOrderNumber now_text random_text = ''ORD-'' @ now_text @ ''-'' @ random_text"

text \<open>
  A write batch is the list of its writes: \<^verbatim>\<open>batch.set(orderRef, order)\<close> and
  \<^verbatim>\<open>batch.update(productRef, {quantityAvailable: v})\<close>. Committing applies them in
  order, all or none; an update of a document that does not exist fails the batch.
\<close>

datatype batch_write = SetOrder string order | UpdateQuantityAvailable string "real option"

fun apply_write :: "batch_write \<Rightarrow> db \<Rightarrow> db option" where
  "apply_write (SetOrder oid ord) d = Some (d\<lparr>orders := (orders d)(oid \<mapsto> ord)\<rparr>)"
| "apply_write (UpdateQuantityAvailable pid v) d =
     (case products d pid of
        None \<Rightarrow> None
      | Some p \<Rightarrow> Some (d\<lparr>products := (products d)(pid \<mapsto> p\<lparr>quantityAvailable := v\<rparr>)\<rparr>))"

fun commit :: "batch_write list \<Rightarrow> db \<Rightarrow> db option" where
  "commit [] d = Some d"
| "commit (w # ws) d = (case apply_write w d of None \<Rightarrow> None | Some d' \<Rightarrow> commit ws d')"

text \<open>The update that the loop of \<^verbatim>\<open>processOrder\<close> adds to the batch for one item.\<close>

definition inventory_update :: "orderItem \<Rightarrow> batch_write" where
  "inventory_update item =
     UpdateQuantityAvailable (item_id item) (js_minus (quantityAvailable item) (quantity item))"

text \<open>
  What \<^verbatim>\<open>processOrder\<close> gets from outside: the answers of \<^verbatim>\<open>inventoryService\<close>, the
  generated id of the order document, the texts of \<^verbatim>\<open>Date.now()\<close> and of the random
  suffix, the clock, whether \<^verbatim>\<open>batch.commit()\<close> was rejected by the store and whether
  \<^verbatim>\<open>emailService.sendOrderConfirmation\<close> threw.
\<close>

record orderEnv =
  checkAvailability :: "string \<Rightarrow> string + real"
  orderRef_id :: string
  now_text :: string
  random_text :: string
  order_now_iso :: string
  commit_rejected :: "string option"
  sendOrderConfirmation_threw :: "string option"

definition items_list :: "'a orderData_scheme \<Rightarrow> orderItem list" where
  "items_list od = (case items od of None \<Rightarrow> [] | Some its \<Rightarrow> its)"

definition new_order :: "orderEnv \<Rightarrow> orderData \<Rightarrow> string \<Rightarrow> order" where
  "new_order env od uid =
     orderData.extend od
       (order.fields uid (generateOrderNumber (now_text env) (random_text env))
          ''processing'' (order_now_iso env))"

definition failed_to_process :: "string \<Rightarrow> error" where
  "failed_to_process msg = Error (''Failed to process order: '' @ msg)"

text \<open>
  \<^verbatim>\<open>processOrder(orderData, userId)\<close>. The three validations are outside the
  \<^verbatim>\<open>try\<close>; the commit, the confirmation e-mail and the \<^verbatim>\<open>return\<close> are inside it, and
  its \<^verbatim>\<open>catch\<close> rethrows whatever was thrown as \<^verbatim>\<open>Failed to process order\<close>.
\<close>

definition processOrder ::
  "orderEnv \<Rightarrow> orderData \<Rightarrow> string \<Rightarrow> db \<Rightarrow> (error + string \<times> order) \<times> db" where
  "processOrder env od uid d =
     (case validateActiveSession d uid of
        Inl e \<Rightarrow> (Inl e, d)
      | Inr _ \<Rightarrow>
         (case validateOrderData d od of
            Inl e \<Rightarrow> (Inl e, d)
          | Inr _ \<Rightarrow>
             (case validateInventoryAvailability (checkAvailability env) (items_list od) of
                Inl e \<Rightarrow> (Inl e, d)
              | Inr _ \<Rightarrow>
                 (let ord = new_order env od uid;
                      batch = SetOrder (orderRef_id env) ord # map inventory_update (items_list od)
                  in (case commit_rejected env of
                        Some msg \<Rightarrow> (Inl (failed_to_process msg), d)
                      | None \<Rightarrow>
                         (case commit batch d of
                            None \<Rightarrow> (Inl (failed_to_process ''No document to update''), d)
                          | Some d' \<Rightarrow>
                             (case sendOrderConfirmation_threw env of
                                Some msg \<Rightarrow> (Inl (failed_to_process msg), d')
                              | None \<Rightarrow> (Inr (orderRef_id env, ord), d'))))))))"

subsection \<open>Two calls of processOrder\<close>





text \<open>The stored \<^verbatim>\<open>quantityAvailable\<close> of a product, \<open>None\<close> when there is no document.\<close>

definition stock :: "db \<Rightarrow> string \<Rightarrow> real option option" where
  "stock d pid = map_option quantityAvailable (products d pid)"



section \<open>cartStore.js\<close>

subsection \<open>Numbers\<close>

text \<open>
  The store takes its items as they come, from a snapshot or from a service, so the
  totals are computed on whatever the items hold. A JavaScript number is \<^verbatim>\<open>NaN\<close>, an
  infinity (\<open>Inf True\<close> the positive one) or a finite double, given by its real value.
\<close>

datatype number = NaN | Inf bool | Fin real






subsection \<open>State\<close>

text \<open>
  A cart item is \<^verbatim>\<open>{ ...product, quantity }\<close>; the store reads its \<^verbatim>\<open>id\<close>, \<^verbatim>\<open>price\<close>
  and \<^verbatim>\<open>quantity\<close> (here prefixed, the plain names being fields of the records above).
  \<open>ci_price\<close> and \<open>ci_quantity\<close> are the numbers that the two fields convert to in
  \<^verbatim>\<open>item.price * item.quantity\<close>: \<^verbatim>\<open>NaN\<close> for a field that is missing.
\<close>

record cartItem =
  ci_id :: string
  ci_price :: number
  ci_quantity :: number

text \<open>
  The state of the store. The \<^verbatim>\<open>unsubscribe\<close> slot holds the cancellation function
  that \<^verbatim>\<open>onSnapshot\<close> returned, modelled as the handle of the listener it cancels.
\<close>

record cartState =
  cart :: "cartItem list"
  loading :: bool
  error :: "string option"
  unsubscribe :: "nat option"

text \<open>
  The listeners held by Firestore: the live ones, each with the key of the
  \<^verbatim>\<open>carts/{uid}\<close> document it watches, and the history of openings and cancellations.
\<close>

datatype event = Opened nat string | Cancelled nat

record listeners =
  next_handle :: nat
  live :: "(nat \<times> string) list"
  events :: "event list"

text \<open>\<^verbatim>\<open>onSnapshot(doc(db, "carts", key), ...)\<close> opens a listener and returns its handle.\<close>

definition onSnapshot :: "string \<Rightarrow> listeners \<Rightarrow> nat \<times> listeners" where
  "onSnapshot key w =
     (next_handle w,
      w\<lparr>next_handle := Suc (next_handle w),
        live := live w @ [(next_handle w, key)],
        events := events w @ [Opened (next_handle w) key]\<rparr>)"

text \<open>Calling the cancellation function of listener \<open>h\<close>.\<close>

definition cancel :: "nat \<Rightarrow> listeners \<Rightarrow> listeners" where
  "cancel h w =
     w\<lparr>live := filter (\<lambda>l. fst l \<noteq> h) (live w), events := events w @ [Cancelled h]\<rparr>"

definition initial :: "cartState \<times> listeners" where
  "initial =
     (\<lparr>cart = [], loading = False, error = None, unsubscribe = None\<rparr>,
      \<lparr>next_handle = 0, live = [], events = []\<rparr>)"

subsection \<open>Subscription\<close>

text \<open>
  \<^verbatim>\<open>subscribeToCart\<close>; \<open>currentUser\<close> is the uid in the auth store, \<open>None\<close> when signed
  out. Of the three identical definitions in the object literal the last one counts.
\<close>

definition subscribeToCart ::
  "string option \<Rightarrow> cartState \<times> listeners \<Rightarrow> cartState \<times> listeners" where
  "subscribeToCart currentUser st =
     (case currentUser of
        None \<Rightarrow> st
      | Some uid \<Rightarrow>
          (let w1 = (case unsubscribe (fst st) of
                       Some currentUnsub \<Rightarrow> cancel currentUnsub (snd st)
                     | None \<Rightarrow> snd st);
               (h, w2) = onSnapshot uid w1
           in ((fst st)\<lparr>unsubscribe := Some h\<rparr>, w2)))"

definition unsubscribeFromCart :: "cartState \<times> listeners \<Rightarrow> cartState \<times> listeners" where
  "unsubscribeFromCart st =
     (case unsubscribe (fst st) of
        Some h \<Rightarrow> ((fst st)\<lparr>unsubscribe := None\<rparr>, cancel h (snd st))
      | None \<Rightarrow> st)"

text \<open>
  The two callbacks given to \<^verbatim>\<open>onSnapshot\<close>. A snapshot is \<open>None\<close> when the document
  does not exist and otherwise holds its \<^verbatim>\<open>items\<close> field, \<open>None\<close> when that is missing.
\<close>

definition on_snapshot :: "cartItem list option option \<Rightarrow> cartState \<Rightarrow> cartState" where
  "on_snapshot snapshot s =
     (case snapshot of
        Some cartData \<Rightarrow>
          s\<lparr>cart := (case cartData of None \<Rightarrow> [] | Some its \<Rightarrow> its),
            loading := False, error := None\<rparr>
      | None \<Rightarrow> s\<lparr>cart := [], loading := False\<rparr>)"

definition on_error :: "string \<Rightarrow> cartState \<Rightarrow> cartState" where
  "on_error msg s = s\<lparr>error := Some msg, loading := False\<rparr>"

text \<open>
  The two updates of \<^verbatim>\<open>loadCart\<close> before its subscription calls: \<^verbatim>\<open>set({ loading: true })\<close>
  at the start and, after the read of the cart document, the \<^verbatim>\<open>set\<close> of what was read.
\<close>

definition load_begin :: "cartState \<Rightarrow> cartState" where
  "load_begin s = s\<lparr>loading := True\<rparr>"

definition load_read :: "cartItem list option option \<Rightarrow> cartState \<Rightarrow> cartState" where
  "load_read doc s =
     (case doc of
        Some cartData \<Rightarrow>
          s\<lparr>cart := (case cartData of None \<Rightarrow> [] | Some its \<Rightarrow> its), loading := False\<rparr>
      | None \<Rightarrow> s\<lparr>loading := False\<rparr>)"

text \<open>The \<^verbatim>\<open>set\<close> in the \<^verbatim>\<open>catch\<close> of \<^verbatim>\<open>loadCart\<close>.\<close>

definition load_failed :: "string \<Rightarrow> cartState \<Rightarrow> cartState" where
  "load_failed msg s = s\<lparr>error := Some msg, loading := False\<rparr>"

text \<open>
  The call \<^verbatim>\<open>sessionValidationService.validateActiveSession(uid)\<close> in \<^verbatim>\<open>loadCart\<close>, with
  the message of what it throws. The class \<^verbatim>\<open>SessionValidationService\<close> of this
  repository defines no method of that name (the class \<^verbatim>\<open>BusinessLogicService\<close> does),
  so the call throws a \<^verbatim>\<open>TypeError\<close> for every argument.
\<close>

definition session_validateActiveSession :: "string \<Rightarrow> string option" where
  "session_validateActiveSession uid =
     Some ''sessionValidationService.validateActiveSession is not a function''"

text \<open>
  \<^verbatim>\<open>loadCart\<close>. \<open>cartDoc\<close> is the result of \<^verbatim>\<open>getDoc\<close> (\<open>Inl\<close> when it threw) and
  \<open>user_then\<close> the uid in the auth store when the three calls of \<^verbatim>\<open>subscribeToCart\<close>
  run, after the awaits. The \<^verbatim>\<open>catch\<close> stores the message of whatever was thrown.
\<close>

definition loadCart ::
  "string option \<Rightarrow> string + cartItem list option option \<Rightarrow> string option
     \<Rightarrow> cartState \<times> listeners \<Rightarrow> cartState \<times> listeners" where
  "loadCart currentUser cartDoc user_then st =
     (case currentUser of
        None \<Rightarrow> st
      | Some uid \<Rightarrow>
          (let s1 = load_begin (fst st)
           in (case session_validateActiveSession uid of
                 Some msg \<Rightarrow> (load_failed msg s1, snd st)
               | None \<Rightarrow>
                  (case cartDoc of
                     Inl msg \<Rightarrow> (load_failed msg s1, snd st)
                   | Inr doc \<Rightarrow>
                       subscribeToCart user_then
                         (subscribeToCart user_then
                            (subscribeToCart user_then (load_read doc s1, snd st)))))))"

subsection \<open>Mutations through the business-logic service\<close>

text \<open>
  The answers of \<^verbatim>\<open>businessLogicService.removeFromCart(uid, id)\<close> and of
  \<^verbatim>\<open>businessLogicService.updateCartQuantity(uid, id, qty)\<close>: the updated cart, or
  \<open>Inl\<close> the message of what was thrown.
\<close>

record cartService =
  service_removeFromCart :: "string \<Rightarrow> string \<Rightarrow> string + cartItem list"
  service_updateCartQuantity :: "string \<Rightarrow> string \<Rightarrow> real \<Rightarrow> string + cartItem list"

text \<open>
  The class \<^verbatim>\<open>BusinessLogicService\<close> of this repository defines neither method, so
  each call throws a \<^verbatim>\<open>TypeError\<close> inside the \<^verbatim>\<open>try\<close> of the store's action.
\<close>

definition repository_service :: cartService where
  "repository_service =
     \<lparr>service_removeFromCart =
        (\<lambda>uid i. Inl ''businessLogicService.removeFromCart is not a function''),
      service_updateCartQuantity =
        (\<lambda>uid i qty. Inl ''businessLogicService.updateCartQuantity is not a function'')\<rparr>"

definition removeFromCart ::
  "cartService \<Rightarrow> string option \<Rightarrow> string \<Rightarrow> cartState \<Rightarrow> cartState" where
  "removeFromCart svc currentUser i s =
     (case currentUser of
        None \<Rightarrow> s
      | Some uid \<Rightarrow>
          (case service_removeFromCart svc uid i of
             Inr updatedCart \<Rightarrow> s\<lparr>cart := updatedCart\<rparr>
           | Inl msg \<Rightarrow> s\<lparr>error := Some msg\<rparr>))"

definition updateQuantity ::
  "cartService \<Rightarrow> string option \<Rightarrow> string \<Rightarrow> real \<Rightarrow> cartState \<Rightarrow> cartState" where
  "updateQuantity svc currentUser i qty s =
     (case currentUser of
        None \<Rightarrow> s
      | Some uid \<Rightarrow>
          if qty \<le> 0 then removeFromCart svc currentUser i s
          else
            (case service_updateCartQuantity svc uid i qty of
               Inr updatedCart \<Rightarrow> s\<lparr>cart := updatedCart\<rparr>
             | Inl msg \<Rightarrow> s\<lparr>error := Some msg\<rparr>))"

subsection \<open>Derived totals\<close>






subsection \<open>Reachable states of the store\<close>

text \<open>
  The states that the store and its listeners reach from the initial one by the
  actions above, with any arguments and any answers from outside. The callbacks of a
  listener run only while a listener is live.
\<close>

inductive reachable :: "cartState \<times> listeners \<Rightarrow> bool" where
  init: "reachable initial"
| subscribe: "reachable st \<Longrightarrow> reachable (subscribeToCart currentUser st)"
| unsubscribe: "reachable st \<Longrightarrow> reachable (unsubscribeFromCart st)"
| load: "reachable st \<Longrightarrow> reachable (loadCart currentUser cartDoc user_then st)"
| snapshot: "reachable (s, w) \<Longrightarrow> live w \<noteq> [] \<Longrightarrow> reachable (on_snapshot snapshot s, w)"
| listen_error: "reachable (s, w) \<Longrightarrow> live w \<noteq> [] \<Longrightarrow> reachable (on_error msg s, w)"
| remove: "reachable (s, w) \<Longrightarrow> reachable (removeFromCart svc currentUser i s, w)"
| update: "reachable (s, w) \<Longrightarrow> reachable (updateQuantity svc currentUser i qty s, w)"

subsection \<open>Invariant of the store and its listeners\<close>

text \<open>
  Every live listener is the one whose cancellation function the store holds, handles
  are fresh, no handle is live twice, and every listener that was ever opened is either
  still live or has had its cancellation function called.
\<close>

definition store_inv :: "cartState \<times> listeners \<Rightarrow> bool" where
  "store_inv st \<longleftrightarrow>
     (\<forall>l \<in> set (live (snd st)). unsubscribe (fst st) = Some (fst l))
   \<and> (\<forall>l \<in> set (live (snd st)). fst l < next_handle (snd st))
   \<and> distinct (map fst (live (snd st)))
   \<and> (\<forall>h k. Opened h k \<in> set (events (snd st)) \<longrightarrow>
          (h, k) \<in> set (live (snd st)) \<or> Cancelled h \<in> set (events (snd st)))"

section \<open>Sample inputs\<close>

definition customer_record :: userData where
  "customer_record = \<lparr>role = ''customer'', suspended = False, deactivated = False\<rparr>"

definition admin_record :: userData where
  "admin_record = \<lparr>role = ''admin'', suspended = False, deactivated = False\<rparr>"

definition suspended_record :: userData where
  "suspended_record = \<lparr>role = ''admin'', suspended = True, deactivated = False\<rparr>"

definition old_entry :: cacheEntry where
  "old_entry = \<lparr>hasPermission = True, userData = admin_record, timestamp = 0\<rparr>"

definition sample_cache :: sessionCache where
  "sample_cache = [(''ab_admin'', old_entry), (''abc_admin'', old_entry), (''xy_admin'', old_entry)]"

definition empty_db :: db where
  "empty_db = \<lparr>users = Map.empty, products = Map.empty, orders = Map.empty, console = []\<rparr>"

definition sample_createEnv :: createEnv where
  "sample_createEnv =
     \<lparr>created_iso = ''2024-01-01T00:00:00.000Z'', updated_iso = ''2024-01-01T00:00:00.001Z'',
      addDoc_result = Inr ''p1'',
      initializeInventory_threw = None, indexProduct_threw = None\<rparr>"

definition sold_out_product :: productData where
  "sold_out_product =
     \<lparr>name = Some ''Honey'', description = Some ''Wild honey'', price = Some 10,
      category = Some ''food'', quantityAvailable = Some 0\<rparr>"

text \<open>
  A shop with ten units of one product in stock. Its one user is an administrator, whom
  the rules in \<^verbatim>\<open>firestore.rules\<close> allow to write product documents.
\<close>

definition shop_db :: db where
  "shop_db =
     \<lparr>users = [''u1'' \<mapsto> admin_record],
      products = [''p1'' \<mapsto>
         \<lparr>name = Some ''Honey'', description = Some ''Wild honey'', price = Some 10,
          category = Some ''food'', quantityAvailable = Some 10,
          createdAt = ''2024-01-01'', updatedAt = ''2024-01-01'', active = True,
          featured = False, rating = 0, reviewCount = 0\<rparr>],
      orders = Map.empty, console = []\<rparr>"

text \<open>An order of two units; \<open>snapshot\<close> is the \<^verbatim>\<open>quantityAvailable\<close> that the item carries.\<close>

definition honey_item :: "real option \<Rightarrow> orderItem" where
  "honey_item snapshot =
     \<lparr>name = Some ''Honey'', description = Some ''Wild honey'', price = Some 10,
      category = Some ''food'', quantityAvailable = snapshot, item_id = ''p1'', quantity = 2\<rparr>"

definition honey_order :: "real option \<Rightarrow> orderData" where
  "honey_order snapshot =
     \<lparr>items = Some [honey_item snapshot], shipping = Some \<lparr>address = Some ''1 Hill Road''\<rparr>,
      total = Some 20\<rparr>"

definition shop_env :: "string option \<Rightarrow> orderEnv" where
  "shop_env email_threw =
     \<lparr>checkAvailability = (\<lambda>pid. Inr 10), orderRef_id = ''o1'', now_text = ''1700000000000'',
      random_text = ''k3j9x2m1q'', order_now_iso = ''2024-01-02'',
      commit_rejected = None, sendOrderConfirmation_threw = email_threw\<rparr>"




definition honey_cart :: cartState where
  "honey_cart =
     \<lparr>cart = [\<lparr>ci_id = ''p1'', ci_price = Fin 10, ci_quantity = Fin 2\<rparr>], loading = False,
      error = None, unsubscribe = None\<rparr>"

text \<open>A service that answers as a working one would for \<open>honey_cart\<close>.\<close>

definition working_service :: cartService where
  "working_service =
     \<lparr>service_removeFromCart = (\<lambda>uid i. Inr []),
      service_updateCartQuantity =
        (\<lambda>uid i qty. Inr [\<lparr>ci_id = i, ci_price = Fin 10, ci_quantity = Fin qty\<rparr>])\<rparr>"



section \<open>Properties of the session validation service\<close>

subsection \<open>The cache and the fresh read\<close>

lemma validateUserRole_hit:
  "map_of c (cacheKey uid r) = Some e \<Longrightarrow> now - timestamp e < cacheTimeout \<Longrightarrow>
   validateUserRole (Some uid) us now now_store r c =
     \<lparr>result = (if hasPermission e then Inr (userData e)
                 else Inl (Error ''Insufficient permissions'')),
      cache = c, reads = 0\<rparr>"
  by (simp add: validateUserRole_def)

lemma validateUserRole_stale:
  "map_of c (cacheKey uid r) = Some e \<Longrightarrow> cacheTimeout \<le> now - timestamp e \<Longrightarrow>
   validateUserRole (Some uid) us now now_store r c = refetch us now_store uid r c"
  by (simp add: validateUserRole_def)

lemma validateUserRole_miss:
  "map_of c (cacheKey uid r) = None \<Longrightarrow>
   validateUserRole (Some uid) us now now_store r c = refetch us now_store uid r c"
  by (simp add: validateUserRole_def)

lemma reads_refetch: "reads (refetch us now_store uid r c) = 1"
  by (simp add: refetch_def Let_def split: option.splits)

lemma result_refetch:
  "result (refetch us now_store uid r c) = result (refetch us now_store uid r c')"
  by (simp add: refetch_def Let_def split: option.splits)

lemma cache_refetch_active:
  "us uid = Some ud \<Longrightarrow> \<not> suspended ud \<Longrightarrow> \<not> deactivated ud \<Longrightarrow>
   map_of (cache (refetch us now_store uid r c)) (cacheKey uid r)
     = Some \<lparr>hasPermission = (role ud = r), userData = ud, timestamp = now_store\<rparr>"
  by (simp add: refetch_def Let_def update_conv')

text \<open>A fresh read that finds no record, or a suspended or deactivated one, stores nothing.\<close>

lemma cache_refetch_failed:
  "us uid = None \<or> (\<exists>ud. us uid = Some ud \<and> (suspended ud \<or> deactivated ud)) \<Longrightarrow>
   cache (refetch us now_store uid r c) = c"
  by (auto simp add: refetch_def Let_def)

lemma map_of_delete_same: "map_of (AList.delete k c) k = None"
  by (simp add: delete_conv')

text \<open>
  C6, as the specification states it, fails: "for every subject, two checks within the
  TTL window issue exactly one fresh read". For a suspended subject the first check
  throws before the entry is stored, so a second check one millisecond later reads the
  system of record again: two fresh reads.
\<close>

theorem validateUserRole_suspended_reads_twice:
  "(1::int) - 0 < cacheTimeout
   \<and> reads (validateUserRole (Some ''u1'') [''u1'' \<mapsto> suspended_record] 0 0 ''admin'' [])
     + reads (validateUserRole (Some ''u1'') [''u1'' \<mapsto> suspended_record] 1 1 ''admin''
         (cache (validateUserRole (Some ''u1'') [''u1'' \<mapsto> suspended_record] 0 0 ''admin'' [])))
     = 2"
  by (simp add: validateUserRole_def refetch_def suspended_record_def cacheTimeout_def)

text \<open>
  C6, amended. For every signed-in subject and required role: a check whose cache entry
  is younger than the timeout issues no fresh read, returns the cached record when
  \<open>hasPermission\<close> holds and fails with \<^verbatim>\<open>Insufficient permissions\<close> otherwise, and leaves
  the cache as it is; a check whose entry is at least as old as the timeout issues one
  fresh read and ends as it would without the entry. Hence, when the subject's record
  exists and is neither suspended nor deactivated at the first check, and no fresh entry
  precedes it, the first check issues one fresh read, a second check within the timeout
  of the stored entry issues none, and a third check after the timeout issues one more,
  whatever the system of record holds at the second and third checks.
\<close>

theorem validateUserRole_ttl:
  "(map_of c (cacheKey uid r) = Some e \<and> now - timestamp e < cacheTimeout \<longrightarrow>
      validateUserRole (Some uid) us now now_store r c =
        \<lparr>result = (if hasPermission e then Inr (userData e)
                    else Inl (Error ''Insufficient permissions'')),
         cache = c, reads = 0\<rparr>)
   \<and> (map_of c (cacheKey uid r) = Some e \<and> cacheTimeout \<le> later - timestamp e \<longrightarrow>
      reads (validateUserRole (Some uid) us later now_store r c) = 1
      \<and> result (validateUserRole (Some uid) us later now_store r c)
          = result (validateUserRole (Some uid) us later now_store r
                      (AList.delete (cacheKey uid r) c)))
   \<and> (us uid = Some ud \<and> \<not> suspended ud \<and> \<not> deactivated ud
       \<and> (\<forall>e0. map_of c (cacheKey uid r) = Some e0 \<longrightarrow> cacheTimeout \<le> t1 - timestamp e0)
       \<and> t2 - s1 < cacheTimeout \<and> cacheTimeout \<le> t3 - s1 \<longrightarrow>
      (let o1 = validateUserRole (Some uid) us t1 s1 r c;
           o2 = validateUserRole (Some uid) us2 t2 s2 r (cache o1);
           o3 = validateUserRole (Some uid) us3 t3 s3 r (cache o2)
       in reads o1 = 1 \<and> reads o2 = 0 \<and> reads o3 = 1))"
proof (intro conjI impI)
  assume "map_of c (cacheKey uid r) = Some e \<and> now - timestamp e < cacheTimeout"
  then show "validateUserRole (Some uid) us now now_store r c =
        \<lparr>result = (if hasPermission e then Inr (userData e)
                    else Inl (Error ''Insufficient permissions'')),
         cache = c, reads = 0\<rparr>"
    by (simp add: validateUserRole_hit)
next
  assume h: "map_of c (cacheKey uid r) = Some e \<and> cacheTimeout \<le> later - timestamp e"
  then show "reads (validateUserRole (Some uid) us later now_store r c) = 1"
    by (simp add: validateUserRole_stale reads_refetch)
  from h show "result (validateUserRole (Some uid) us later now_store r c)
          = result (validateUserRole (Some uid) us later now_store r
                      (AList.delete (cacheKey uid r) c))"
    using result_refetch [of us now_store uid r c "AList.delete (cacheKey uid r) c"]
    by (simp add: validateUserRole_stale validateUserRole_miss map_of_delete_same)
next
  assume h: "us uid = Some ud \<and> \<not> suspended ud \<and> \<not> deactivated ud
       \<and> (\<forall>e0. map_of c (cacheKey uid r) = Some e0 \<longrightarrow> cacheTimeout \<le> t1 - timestamp e0)
       \<and> t2 - s1 < cacheTimeout \<and> cacheTimeout \<le> t3 - s1"
  define o1 where "o1 = validateUserRole (Some uid) us t1 s1 r c"
  define o2 where "o2 = validateUserRole (Some uid) us2 t2 s2 r (cache o1)"
  define o3 where "o3 = validateUserRole (Some uid) us3 t3 s3 r (cache o2)"
  define e1 where "e1 = \<lparr>hasPermission = (role ud = r), userData = ud, timestamp = s1\<rparr>"
  have o1: "o1 = refetch us s1 uid r c"
  proof (cases "map_of c (cacheKey uid r)")
    case None
    then show ?thesis by (simp add: o1_def validateUserRole_miss)
  next
    case (Some e0)
    with h have "cacheTimeout \<le> t1 - timestamp e0" by simp
    with Some show ?thesis by (simp add: o1_def validateUserRole_stale)
  qed
  have r1: "reads o1 = 1" by (simp add: o1 reads_refetch)
  have c1: "map_of (cache o1) (cacheKey uid r) = Some e1"
    using h by (simp add: o1 e1_def cache_refetch_active)
  have young: "t2 - timestamp e1 < cacheTimeout" using h by (simp add: e1_def)
  have o2: "o2 = \<lparr>result = (if hasPermission e1 then Inr (userData e1)
                    else Inl (Error ''Insufficient permissions'')),
                  cache = cache o1, reads = 0\<rparr>"
    unfolding o2_def by (rule validateUserRole_hit [OF c1 young])
  have old: "cacheTimeout \<le> t3 - timestamp e1" using h by (simp add: e1_def)
  have c2: "map_of (cache o2) (cacheKey uid r) = Some e1" using c1 by (simp add: o2)
  have r3: "reads o3 = 1"
    unfolding o3_def by (simp add: validateUserRole_stale [OF c2 old] reads_refetch)
  show "let o1 = validateUserRole (Some uid) us t1 s1 r c;
           o2 = validateUserRole (Some uid) us2 t2 s2 r (cache o1);
           o3 = validateUserRole (Some uid) us3 t3 s3 r (cache o2)
       in reads o1 = 1 \<and> reads o2 = 0 \<and> reads o3 = 1"
    using r1 r3 o2 unfolding Let_def o1_def o2_def o3_def by simp
qed

text \<open>
  The three parts at one input: an entry stamped 0 is young at 1000 and stale at 300000
  (exactly the timeout); checks at 400000 (stored at 400050), 500000 and 700050 issue
  one, no and one fresh read, although the record is gone at the second check.
\<close>

theorem validateUserRole_ttl_witness:
  "map_of [(''u1_admin'', old_entry)] (cacheKey ''u1'' ''admin'') = Some old_entry
   \<and> (1000::int) - timestamp old_entry < cacheTimeout
   \<and> cacheTimeout \<le> 300000 - timestamp old_entry
   \<and> cacheTimeout \<le> 400000 - timestamp old_entry
   \<and> (500000::int) - 400050 < cacheTimeout \<and> cacheTimeout \<le> 700050 - 400050
   \<and> validateUserRole (Some ''u1'') [''u1'' \<mapsto> admin_record] 1000 1001 ''admin''
        [(''u1_admin'', old_entry)]
      = \<lparr>result = Inr admin_record, cache = [(''u1_admin'', old_entry)], reads = 0\<rparr>
   \<and> reads (validateUserRole (Some ''u1'') [''u1'' \<mapsto> admin_record] 300000 1001 ''admin''
        [(''u1_admin'', old_entry)]) = 1
   \<and> (let o1 = validateUserRole (Some ''u1'') [''u1'' \<mapsto> admin_record] 400000 400050
                  ''admin'' [(''u1_admin'', old_entry)];
           o2 = validateUserRole (Some ''u1'') Map.empty 500000 500001 ''admin'' (cache o1);
           o3 = validateUserRole (Some ''u1'') [''u1'' \<mapsto> admin_record] 700050 700051
                  ''admin'' (cache o2)
       in reads o1 = 1 \<and> reads o2 = 0 \<and> reads o3 = 1)"
proof -
  have k: "map_of [(''u1_admin'', old_entry)] (cacheKey ''u1'' ''admin'') = Some old_entry"
    by (simp add: cacheKey_def)
  have t: "(1000::int) - timestamp old_entry < cacheTimeout"
    "cacheTimeout \<le> 300000 - timestamp old_entry"
    "cacheTimeout \<le> 400000 - timestamp old_entry"
    "(500000::int) - 400050 < cacheTimeout" "cacheTimeout \<le> 700050 - 400050"
    by (simp_all add: old_entry_def cacheTimeout_def)
  have u: "[''u1'' \<mapsto> admin_record] ''u1'' = Some admin_record"
    "\<not> suspended admin_record" "\<not> deactivated admin_record"
    "hasPermission old_entry" "userData old_entry = admin_record"
    by (simp_all add: admin_record_def old_entry_def)
  from validateUserRole_ttl
    [where c = "[(''u1_admin'', old_entry)]" and uid = "''u1''" and r = "''admin''"
       and e = old_entry and now = 1000 and later = 300000 and now_store = 1001
       and us = "[''u1'' \<mapsto> admin_record]" and ud = admin_record
       and ?t1.0 = 400000 and ?s1.0 = 400050 and ?t2.0 = 500000 and ?s2.0 = 500001
       and ?t3.0 = 700050 and ?s3.0 = 700051 and ?us2.0 = Map.empty
       and ?us3.0 = "[''u1'' \<mapsto> admin_record]"]
  show ?thesis using k t u by simp
qed

subsection \<open>Clearing the cache\<close>

lemma fold_delete_filter:
  "fold (\<lambda>key m. if P key then AList.delete key m else m) ks c
     = filter (\<lambda>p. \<not> (P (fst p) \<and> fst p \<in> set ks)) c"
proof (induction ks arbitrary: c)
  case Nil
  then show ?case by simp
next
  case (Cons k ks)
  show ?case
  proof (cases "P k")
    case True
    have "filter (\<lambda>p. \<not> (P (fst p) \<and> fst p \<in> set ks)) (AList.delete k c)
            = filter (\<lambda>p. \<not> (P (fst p) \<and> fst p \<in> set (k # ks))) c"
      by (induction c) (auto simp: True)
    with Cons True show ?thesis by simp
  next
    case False
    have "filter (\<lambda>p. \<not> (P (fst p) \<and> fst p \<in> set ks)) c
            = filter (\<lambda>p. \<not> (P (fst p) \<and> fst p \<in> set (k # ks))) c"
      by (rule filter_cong) (auto simp: False)
    with Cons False show ?thesis by simp
  qed
qed

text \<open>The loop keeps, in their order, the entries whose key does not start with \<open>u\<close>.\<close>

lemma clearCache_filter: "clearCache (Some u) c = filter (\<lambda>p. \<not> prefix u (fst p)) c"
proof (cases "u = []")
  case True
  then show ?thesis by (simp add: clearCache_def)
next
  case False
  have "filter (\<lambda>p. \<not> (prefix u (fst p) \<and> fst p \<in> set (map fst c))) c
          = filter (\<lambda>p. \<not> prefix u (fst p)) c"
    by (rule filter_cong) auto
  with False show ?thesis by (simp add: clearCache_def fold_delete_filter)
qed

lemma map_of_filter_key:
  "map_of (filter (\<lambda>p. Q (fst p)) c) k = (if Q k then map_of c k else None)"
  by (induction c) auto

lemma map_of_clearCache:
  "map_of (clearCache (Some u) c) key = (if prefix u key then None else map_of c key)"
  using map_of_filter_key [of "\<lambda>k. \<not> prefix u k" c key] by (simp add: clearCache_filter)

lemma prefix_cacheKey: "prefix u v \<Longrightarrow> prefix u (cacheKey v r)"
  by (simp add: cacheKey_def)

lemma reads_miss:
  "map_of c (cacheKey uid r) = None \<Longrightarrow>
   reads (validateUserRole (Some uid) us now now_store r c) = 1"
  by (simp add: validateUserRole_miss reads_refetch)

text \<open>
  C10. \<^verbatim>\<open>clearCache(userId)\<close> removes exactly the entries whose key starts with
  \<open>userId\<close> and keeps every other entry: the subject's entries for every required role
  go, so the subject's next \<^verbatim>\<open>validateUserRole\<close> issues a fresh read whatever the
  clock says, and so do the entries of any other subject whose uid has \<open>userId\<close> as a
  proper prefix. Called without an argument it empties the cache.
\<close>

theorem clearCache_removes_prefixed:
  "map_of (clearCache (Some u) c) key = (if prefix u key then None else map_of c key)
   \<and> map_of (clearCache (Some u) c) (cacheKey u requiredRole) = None
   \<and> reads (validateUserRole (Some u) us now now_store requiredRole (clearCache (Some u) c)) = 1
   \<and> (strict_prefix u v \<longrightarrow> map_of (clearCache (Some u) c) (cacheKey v requiredRole) = None)
   \<and> clearCache None c = []"
proof -
  have a: "map_of (clearCache (Some u) c) (cacheKey u requiredRole) = None"
    by (simp add: map_of_clearCache prefix_cacheKey)
  have b: "strict_prefix u v \<longrightarrow> map_of (clearCache (Some u) c) (cacheKey v requiredRole) = None"
    by (simp add: map_of_clearCache prefix_cacheKey strict_prefix_def)
  have d: "clearCache None c = []" by (simp add: clearCache_def)
  show ?thesis using a b d by (simp add: map_of_clearCache reads_miss)
qed

text \<open>
  Clearing for \<^verbatim>\<open>ab\<close> a cache that holds entries of the subjects \<^verbatim>\<open>ab\<close>, \<^verbatim>\<open>abc\<close> and
  \<^verbatim>\<open>xy\<close> leaves only the entry of \<^verbatim>\<open>xy\<close>.
\<close>

theorem clearCache_removes_prefixed_witness:
  "strict_prefix ''ab'' ''abc''
   \<and> map_of sample_cache (cacheKey ''abc'' ''admin'') = Some old_entry
   \<and> map_of (clearCache (Some ''ab'') sample_cache) (cacheKey ''abc'' ''admin'') = None
   \<and> map_of (clearCache (Some ''ab'') sample_cache) ''xy_admin'' = Some old_entry
   \<and> clearCache (Some ''ab'') sample_cache = [(''xy_admin'', old_entry)]"
proof -
  have p: "strict_prefix ''ab'' ''abc''" by (simp add: strict_prefix_def)
  have m: "map_of sample_cache (cacheKey ''abc'' ''admin'') = Some old_entry"
    "map_of sample_cache ''xy_admin'' = Some old_entry"
    by (simp_all add: sample_cache_def cacheKey_def)
  have f: "clearCache (Some ''ab'') sample_cache = [(''xy_admin'', old_entry)]"
    by (simp add: clearCache_filter sample_cache_def)
  from clearCache_removes_prefixed
    [where u = "''ab''" and c = sample_cache and key = "''xy_admin''" and v = "''abc''"
       and requiredRole = "''admin''" and us = Map.empty and now = 0 and now_store = 0]
  show ?thesis using p m f by simp
qed

subsection \<open>Permission checks\<close>

text \<open>
  Without a fresh cache entry, \<^verbatim>\<open>checkPermission\<close> fails for every subject whose role
  is not \<^verbatim>\<open>admin\<close>, whatever the action and the resource.
\<close>

lemma checkPermission_requires_admin:
  "map_of c (cacheKey uid ''admin'') = None \<Longrightarrow> us uid = Some ud \<Longrightarrow> role ud \<noteq> ''admin'' \<Longrightarrow>
   \<exists>e. result (checkPermission (Some uid) us now now_store action resource c) = Inl e"
  by (auto simp add: checkPermission_def validateUserRole_def refetch_def Let_def)

text \<open>
  C3. The specification states that a subject with role \<^verbatim>\<open>customer\<close> passes
  \<^verbatim>\<open>checkPermission('read', 'orders')\<close>, because the matrix lists that action. The matrix
  does list it, but the code first calls \<^verbatim>\<open>validateUserRole()\<close> with the default
  required role \<^verbatim>\<open>admin\<close>, which throws for the customer: the check fails.
\<close>

theorem checkPermission_customer_denied:
  "matrix_allows ''customer'' (Some ''orders'') ''read''
   \<and> result (checkPermission (Some ''u1'') [''u1'' \<mapsto> customer_record] 0 0
               ''read'' (Some ''orders'') [])
       = Inl (Error ''Access denied. Required role: admin, current role: customer'')"
  by (simp add: checkPermission_def validateUserRole_def refetch_def customer_record_def
      cacheKey_def matrix_allows_def permissions_def Let_def)

section \<open>Properties of the business-logic service\<close>

subsection \<open>Product validation\<close>

text \<open>
  What \<^verbatim>\<open>validateProductData\<close> accepts: the three texts are non-empty and both numbers
  are strictly positive. A number that is \<open>0\<close> already fails the required-field loop.
\<close>

lemma validateProductData_accepts:
  "validateProductData pd = Inr () \<longleftrightarrow>
     (\<exists>n d c p q. name pd = Some n \<and> n \<noteq> [] \<and> description pd = Some d \<and> d \<noteq> []
        \<and> category pd = Some c \<and> c \<noteq> [] \<and> price pd = Some p \<and> 0 < p
        \<and> quantityAvailable pd = Some q \<and> 0 < q)"
  by (auto simp add: validateProductData_def required_def falsy_field_def
      falsy_str_def falsy_num_def js_le_def js_lt_def split: option.splits)

lemma validateProductData_zero_price:
  "validateProductData (sold_out_product\<lparr>price := Some 0, quantityAvailable := Some 1\<rparr>)
     = Inl (Error ''Missing required field: price'')"
  by (simp add: validateProductData_def required_def falsy_field_def
      falsy_str_def falsy_num_def sold_out_product_def)

text \<open>
  C4. The specification states that a product with \<^verbatim>\<open>quantityAvailable\<close> equal to 0 and
  otherwise valid fields passes validation and is written. In the code the
  required-field loop tests \<^verbatim>\<open>!productData[field]\<close>, which holds for the number 0:
  \<^verbatim>\<open>createProduct\<close> throws \<^verbatim>\<open>Missing required field: quantityAvailable\<close> and writes
  nothing.
\<close>

theorem createProduct_zero_quantity_rejected:
  "createProduct sample_createEnv sold_out_product ''admin'' empty_db
     = (Inl (Error ''Missing required field: quantityAvailable''), empty_db)"
  by (simp add: createProduct_def validateProductData_def required_def falsy_field_def
      falsy_str_def falsy_num_def sold_out_product_def)

subsection \<open>Order processing\<close>

lemma validateItems_exist:
  "validateItems ps its = Inr () \<Longrightarrow> it \<in> set its \<Longrightarrow> ps (item_id it) \<noteq> None"
  by (induction its) (auto split: option.splits if_splits)

lemma commit_other:
  "commit (map inventory_update its) d = Some d' \<Longrightarrow> p \<notin> item_id ` set its \<Longrightarrow>
   products d' p = products d p"
proof (induction its arbitrary: d)
  case Nil
  then show ?case by simp
next
  case (Cons a its)
  then show ?case
    by (auto simp: inventory_update_def split: option.splits)
qed

text \<open>
  What a committed batch leaves in stock: for items with distinct ids, the quantity the
  item itself carried minus the ordered quantity, whatever the store held before.
\<close>

lemma commit_inventory:
  "commit (map inventory_update its) d = Some d' \<Longrightarrow> distinct (map item_id its) \<Longrightarrow>
   it \<in> set its \<Longrightarrow>
   map_option quantityAvailable (products d' (item_id it))
     = Some (js_minus (quantityAvailable it) (quantity it))"
proof (induction its arbitrary: d)
  case Nil
  then show ?case by simp
next
  case (Cons a its)
  from Cons.prems(1) obtain d1 where
    d1: "apply_write (inventory_update a) d = Some d1"
    and rest: "commit (map inventory_update its) d1 = Some d'"
    by (auto split: option.splits)
  show ?case
  proof (cases "it = a")
    case True
    from Cons.prems(2) have "item_id a \<notin> item_id ` set its" by simp
    with rest have "products d' (item_id a) = products d1 (item_id a)"
      by (rule commit_other)
    with d1 True show ?thesis
      by (auto simp: inventory_update_def split: option.splits)
  next
    case False
    with Cons.prems have "it \<in> set its" "distinct (map item_id its)" by simp_all
    with Cons.IH rest show ?thesis by blast
  qed
qed

lemma processOrder_success:
  assumes "processOrder env od uid d = (Inr r, d')"
  shows "commit (map inventory_update (items_list od))
           (d\<lparr>orders := (orders d)(orderRef_id env \<mapsto> new_order env od uid)\<rparr>) = Some d'"
  using assms
  by (auto simp: processOrder_def Let_def split: sum.splits option.splits)

lemma processOrder_stock:
  assumes "processOrder env od uid d = (Inr r, d')"
    and "distinct (map item_id (items_list od))" and "it \<in> set (items_list od)"
  shows "map_option quantityAvailable (products d' (item_id it))
           = Some (js_minus (quantityAvailable it) (quantity it))"
  using commit_inventory [OF processOrder_success [OF assms(1)] assms(2) assms(3)] .

text \<open>Whenever the confirmation e-mail throws, \<^verbatim>\<open>processOrder\<close> throws as well.\<close>

lemma processOrder_email_threw:
  "sendOrderConfirmation_threw env = Some msg \<Longrightarrow> fst (processOrder env od uid d) \<noteq> Inr r"
  by (auto simp: processOrder_def Let_def split: sum.splits option.splits)

lemmas shop_defs = processOrder_def validateActiveSession_def validateOrderData_def
  items_list_def new_order_def inventory_update_def js_lt_def js_minus_def falsy_str_def
  failed_to_process_def shop_db_def honey_item_def honey_order_def shop_env_def
  generateOrderNumber_def orderData.extend_def order.fields_def admin_record_def Let_def

text \<open>
  C1. The specification states that \<^verbatim>\<open>processOrder\<close> still returns the created order
  when the confirmation e-mail throws after the commit. In the code the
  \<^verbatim>\<open>await emailService.sendOrderConfirmation(order)\<close> stands inside the \<^verbatim>\<open>try\<close> whose
  \<^verbatim>\<open>catch\<close> rethrows: the order is written with status \<^verbatim>\<open>processing\<close> and the stock is
  reduced, yet the caller gets \<^verbatim>\<open>Failed to process order\<close>.
\<close>

theorem processOrder_email_failure_propagates:
  "fst (processOrder (shop_env (Some ''SMTP connection refused'')) (honey_order (Some 10))
          ''u1'' shop_db)
     = Inl (Error ''Failed to process order: SMTP connection refused'')
   \<and> map_option status
       (orders (snd (processOrder (shop_env (Some ''SMTP connection refused''))
                        (honey_order (Some 10)) ''u1'' shop_db)) ''o1'')
     = Some ''processing''
   \<and> map_option quantityAvailable
       (products (snd (processOrder (shop_env (Some ''SMTP connection refused''))
                          (honey_order (Some 10)) ''u1'' shop_db)) ''p1'')
     = Some (Some 8)"
  by (simp add: shop_defs)

text \<open>
  C2. The specification states that the committed write leaves each product's
  \<^verbatim>\<open>quantityAvailable\<close> at its stored value minus the ordered quantity. The code writes
  \<^verbatim>\<open>item.quantityAvailable - item.quantity\<close>, computed from the copy that the order
  item carries. With ten units stored and an item that carries a stale 5, a successful
  order of two units leaves 3 in stock, not 8.
\<close>

theorem processOrder_writes_item_snapshot:
  "map_option quantityAvailable (products shop_db ''p1'') = Some (Some 10)
   \<and> fst (processOrder (shop_env None) (honey_order (Some 5)) ''u1'' shop_db)
       = Inr (''o1'', new_order (shop_env None) (honey_order (Some 5)) ''u1'')
   \<and> map_option quantityAvailable
       (products (snd (processOrder (shop_env None) (honey_order (Some 5)) ''u1'' shop_db))
          ''p1'')
     = Some (Some 3)"
  by (simp add: shop_defs)

subsection \<open>Two calls for the last unit\<close>








section \<open>Properties of the cart store\<close>

subsection \<open>One live subscription\<close>

lemma live_cancel_held:
  "store_inv st \<Longrightarrow> unsubscribe (fst st) = Some h \<Longrightarrow> live (cancel h (snd st)) = []"
  by (auto simp: store_inv_def cancel_def filter_empty_conv)

lemma live_none_held:
  "store_inv st \<Longrightarrow> unsubscribe (fst st) = None \<Longrightarrow> live (snd st) = []"
  by (cases "live (snd st)") (auto simp: store_inv_def)

lemma live_subscribe:
  assumes "store_inv st"
  shows "live (snd (subscribeToCart (Some uid) st)) = [(next_handle (snd st), uid)]"
proof (cases "unsubscribe (fst st)")
  case None
  with assms show ?thesis
    by (simp add: subscribeToCart_def onSnapshot_def Let_def live_none_held)
next
  case (Some h)
  with assms live_cancel_held [OF assms Some] show ?thesis
    by (simp add: subscribeToCart_def onSnapshot_def Let_def) (simp add: cancel_def)
qed

text \<open>The cancellation of the held listener comes before the opening of the new one.\<close>

lemma events_subscribe:
  "events (snd (subscribeToCart (Some uid) st)) =
     events (snd st) @ (case unsubscribe (fst st) of None \<Rightarrow> [] | Some h \<Rightarrow> [Cancelled h])
       @ [Opened (next_handle (snd st)) uid]"
  by (simp add: subscribeToCart_def onSnapshot_def cancel_def Let_def split: option.splits)

lemma next_handle_subscribe:
  "next_handle (snd (subscribeToCart (Some uid) st)) = Suc (next_handle (snd st))"
  by (simp add: subscribeToCart_def onSnapshot_def cancel_def Let_def split: option.splits)

lemma unsubscribe_subscribe:
  "unsubscribe (fst (subscribeToCart (Some uid) st)) = Some (next_handle (snd st))"
  by (simp add: subscribeToCart_def onSnapshot_def cancel_def Let_def split: option.splits)

lemma inv_subscribe:
  assumes "store_inv st"
  shows "store_inv (subscribeToCart currentUser st)"
proof (cases currentUser)
  case None
  with assms show ?thesis by (simp add: subscribeToCart_def)
next
  case (Some uid)
  have ev: "\<forall>h k. Opened h k \<in> set (events (snd st)) \<longrightarrow>
          (h, k) \<in> set (live (snd st)) \<or> Cancelled h \<in> set (events (snd st))"
    using assms by (simp add: store_inv_def)
  have held: "\<forall>l \<in> set (live (snd st)). unsubscribe (fst st) = Some (fst l)"
    using assms by (simp add: store_inv_def)
  have "\<forall>h k. Opened h k \<in> set (events (snd (subscribeToCart (Some uid) st))) \<longrightarrow>
          (h, k) \<in> set (live (snd (subscribeToCart (Some uid) st)))
          \<or> Cancelled h \<in> set (events (snd (subscribeToCart (Some uid) st)))"
  proof (intro allI impI)
    fix h k
    assume "Opened h k \<in> set (events (snd (subscribeToCart (Some uid) st)))"
    then consider "Opened h k \<in> set (events (snd st))" | "h = next_handle (snd st) \<and> k = uid"
      by (auto simp: events_subscribe split: option.splits)
    then show "(h, k) \<in> set (live (snd (subscribeToCart (Some uid) st)))
          \<or> Cancelled h \<in> set (events (snd (subscribeToCart (Some uid) st)))"
    proof cases
      case 1
      with ev have "(h, k) \<in> set (live (snd st)) \<or> Cancelled h \<in> set (events (snd st))"
        by blast
      then show ?thesis
      proof
        assume "(h, k) \<in> set (live (snd st))"
        with held have "unsubscribe (fst st) = Some h" by fastforce
        then show ?thesis by (simp add: events_subscribe)
      next
        assume "Cancelled h \<in> set (events (snd st))"
        then show ?thesis by (simp add: events_subscribe)
      qed
    next
      case 2
      then show ?thesis by (simp add: live_subscribe [OF assms])
    qed
  qed
  then show ?thesis
    unfolding Some store_inv_def [of "subscribeToCart (Some uid) st"]
    by (simp add: live_subscribe [OF assms] next_handle_subscribe unsubscribe_subscribe)
qed

lemma inv_cancel_held:
  assumes "store_inv st" and "unsubscribe (fst st) = Some h"
  shows "store_inv ((fst st)\<lparr>unsubscribe := None\<rparr>, cancel h (snd st))"
proof -
  have l: "live (cancel h (snd st)) = []" by (rule live_cancel_held [OF assms])
  have "\<forall>h' k. Opened h' k \<in> set (events (snd st)) \<longrightarrow>
          (h', k) \<in> set (live (snd st)) \<or> Cancelled h' \<in> set (events (snd st))"
    and "\<forall>l \<in> set (live (snd st)). unsubscribe (fst st) = Some (fst l)"
    using assms by (simp_all add: store_inv_def)
  then have "\<forall>h' k. Opened h' k \<in> set (events (cancel h (snd st))) \<longrightarrow>
          Cancelled h' \<in> set (events (cancel h (snd st)))"
    using assms(2) by (fastforce simp: cancel_def)
  with l show ?thesis by (simp add: store_inv_def)
qed

lemma inv_unsubscribe: "store_inv st \<Longrightarrow> store_inv (unsubscribeFromCart st)"
  by (cases "unsubscribe (fst st)") (simp_all add: unsubscribeFromCart_def inv_cancel_held)

lemma inv_state_only:
  "store_inv (s, w) \<Longrightarrow> unsubscribe s' = unsubscribe s \<Longrightarrow> store_inv (s', w)"
  by (simp add: store_inv_def)

lemma unsubscribe_load_steps:
  "unsubscribe (load_begin s) = unsubscribe s"
  "unsubscribe (load_read doc s) = unsubscribe s"
  "unsubscribe (load_failed msg s) = unsubscribe s"
  by (simp_all add: load_begin_def load_read_def load_failed_def split: option.splits)

text \<open>
  \<^verbatim>\<open>loadCart\<close> ends in its \<^verbatim>\<open>catch\<close> before it reaches its calls of \<^verbatim>\<open>subscribeToCart\<close>:
  it leaves the listeners as they are.
\<close>

lemma loadCart_listeners: "snd (loadCart currentUser cartDoc user_then st) = snd st"
  by (simp add: loadCart_def session_validateActiveSession_def Let_def split: option.splits)

lemma loadCart_unsubscribe:
  "unsubscribe (fst (loadCart currentUser cartDoc user_then st)) = unsubscribe (fst st)"
  by (simp add: loadCart_def session_validateActiveSession_def Let_def unsubscribe_load_steps
      split: option.splits)

lemma inv_loadCart:
  assumes "store_inv st"
  shows "store_inv (loadCart currentUser cartDoc user_then st)"
proof -
  have "store_inv (fst st, snd st)" using assms by simp
  then have "store_inv (fst (loadCart currentUser cartDoc user_then st), snd st)"
    by (rule inv_state_only) (simp add: loadCart_unsubscribe)
  then show ?thesis
    using loadCart_listeners [of currentUser cartDoc user_then st]
    by (metis prod.collapse)
qed

lemma inv_initial: "store_inv initial"
  by (simp add: store_inv_def initial_def)

lemma unsubscribe_removeFromCart: "unsubscribe (removeFromCart svc cu i s) = unsubscribe s"
  by (simp add: removeFromCart_def split: option.splits sum.splits)

lemma unsubscribe_updateQuantity: "unsubscribe (updateQuantity svc cu i q s) = unsubscribe s"
  by (simp add: updateQuantity_def unsubscribe_removeFromCart split: option.splits sum.splits)

lemma reachable_inv: "reachable st \<Longrightarrow> store_inv st"
proof (induction rule: reachable.induct)
  case init
  show ?case by (rule inv_initial)
next
  case (subscribe st currentUser)
  then show ?case by (simp add: inv_subscribe)
next
  case (unsubscribe st)
  then show ?case by (simp add: inv_unsubscribe)
next
  case (load st currentUser cartDoc user_then)
  then show ?case by (simp add: inv_loadCart)
next
  case (snapshot s w snapshot)
  from snapshot.IH show ?case
    by (rule inv_state_only) (simp add: on_snapshot_def split: option.splits)
next
  case (listen_error s w msg)
  from listen_error.IH show ?case by (rule inv_state_only) (simp add: on_error_def)
next
  case (remove s w svc currentUser i)
  from remove.IH show ?case by (rule inv_state_only) (simp add: unsubscribe_removeFromCart)
next
  case (update s w svc currentUser i qty)
  from update.IH show ?case by (rule inv_state_only) (simp add: unsubscribe_updateQuantity)
qed

lemma inv_at_most_one: "store_inv st \<Longrightarrow> length (live (snd st)) \<le> 1"
proof (cases "unsubscribe (fst st)")
  case None
  assume "store_inv st"
  with None show ?thesis by (simp add: live_none_held)
next
  case (Some h)
  assume i: "store_inv st"
  then have d: "distinct (map fst (live (snd st)))"
    and e: "\<forall>l \<in> set (live (snd st)). fst l = h"
    using Some by (auto simp: store_inv_def)
  show ?thesis
  proof (cases "live (snd st)")
    case Nil
    then show ?thesis by simp
  next
    case (Cons a rest)
    with d e have "rest = []" by (cases rest) auto
    with Cons show ?thesis by simp
  qed
qed

lemma inv_opened_cancelled:
  assumes "store_inv st" and "live (snd st) = [(h0, k0)]"
  shows "\<forall>h k. Opened h k \<in> set (events (snd st)) \<longrightarrow>
           h = h0 \<or> Cancelled h \<in> set (events (snd st))"
  using assms by (auto simp: store_inv_def)

lemma subscribe_twice:
  assumes "store_inv st"
  shows "live (snd (subscribeToCart (Some uid) (subscribeToCart (Some uid) st)))
           = [(Suc (next_handle (snd st)), uid)]"
proof -
  have "store_inv (subscribeToCart (Some uid) st)" by (rule inv_subscribe [OF assms])
  then have "live (snd (subscribeToCart (Some uid) (subscribeToCart (Some uid) st)))
               = [(next_handle (snd (subscribeToCart (Some uid) st)), uid)]"
    by (rule live_subscribe)
  then show ?thesis by (simp add: next_handle_subscribe)
qed

text \<open>Any number of calls in succession: the invariant holds and the handles count up.\<close>

lemma subscribe_repeatedly:
  assumes "store_inv st"
  shows "store_inv ((subscribeToCart (Some uid) ^^ k) st)
    \<and> next_handle (snd ((subscribeToCart (Some uid) ^^ k) st)) = next_handle (snd st) + k"
proof (induction k)
  case 0
  with assms show ?case by simp
next
  case (Suc k)
  then show ?case by (simp add: inv_subscribe next_handle_subscribe)
qed

lemma live_subscribe_repeatedly:
  assumes "store_inv st"
  shows "live (snd ((subscribeToCart (Some uid) ^^ Suc k) st)) = [(next_handle (snd st) + k, uid)]"
proof -
  have i: "store_inv ((subscribeToCart (Some uid) ^^ k) st)"
    and n: "next_handle (snd ((subscribeToCart (Some uid) ^^ k) st)) = next_handle (snd st) + k"
    using subscribe_repeatedly [OF assms, where uid = uid and k = k] by simp_all
  show ?thesis using live_subscribe [OF i, where uid = uid] by (simp add: n)
qed

text \<open>
  C7. The specification states that \<^verbatim>\<open>loadCart\<close>, starting the subscription repeatedly,
  leaves exactly one active listener. The three calls of \<^verbatim>\<open>subscribeToCart\<close> stand in
  \<^verbatim>\<open>loadCart\<close>, but the call \<^verbatim>\<open>sessionValidationService.validateActiveSession\<close> before
  them names a method that only \<^verbatim>\<open>BusinessLogicService\<close> defines: it throws, the \<^verbatim>\<open>catch\<close>
  stores the message, and from the initial store with a subject signed in \<^verbatim>\<open>loadCart\<close>
  leaves no listener at all.
\<close>

theorem loadCart_opens_no_listener:
  "live (snd (loadCart (Some ''u1'') (Inr None) (Some ''u1'') initial)) = []
   \<and> error (fst (loadCart (Some ''u1'') (Inr None) (Some ''u1'') initial))
       = Some ''sessionValidationService.validateActiveSession is not a function''"
  by (simp add: loadCart_def session_validateActiveSession_def load_failed_def load_begin_def
      initial_def)

text \<open>
  What does hold of the subscription. In every reachable state at most one listener is
  live, and it is the one whose cancellation function the store holds. A call of
  \<^verbatim>\<open>subscribeToCart\<close> first calls
  the held cancellation function and then opens the new listener. So after two calls in
  succession, and after any number of them, exactly one listener is live, the last one
  opened, and every listener opened before it has had its cancellation function called.
  After \<^verbatim>\<open>loadCart\<close> at most one listener is live.
\<close>

theorem single_live_subscription:
  assumes "reachable st"
  shows "length (live (snd st)) \<le> 1
    \<and> (\<forall>l \<in> set (live (snd st)). unsubscribe (fst st) = Some (fst l))
    \<and> events (snd (subscribeToCart (Some uid) st)) =
        events (snd st) @ (case unsubscribe (fst st) of None \<Rightarrow> [] | Some h \<Rightarrow> [Cancelled h])
          @ [Opened (next_handle (snd st)) uid]
    \<and> (let st2 = subscribeToCart (Some uid) (subscribeToCart (Some uid) st)
       in live (snd st2) = [(next_handle (snd st) + 1, uid)]
          \<and> (\<forall>h k. Opened h k \<in> set (events (snd st2)) \<longrightarrow>
                h = next_handle (snd st) + 1 \<or> Cancelled h \<in> set (events (snd st2))))
    \<and> (let stn = (subscribeToCart (Some uid) ^^ Suc n) st
       in live (snd stn) = [(next_handle (snd st) + n, uid)]
          \<and> (\<forall>h k. Opened h k \<in> set (events (snd stn)) \<longrightarrow>
                h = next_handle (snd st) + n \<or> Cancelled h \<in> set (events (snd stn))))
    \<and> length (live (snd (loadCart currentUser cartDoc user_then st))) \<le> 1"
proof -
  have i: "store_inv st" by (rule reachable_inv [OF assms])
  have a: "length (live (snd st)) \<le> 1" by (rule inv_at_most_one [OF i])
  have b: "\<forall>l \<in> set (live (snd st)). unsubscribe (fst st) = Some (fst l)"
    using i by (simp add: store_inv_def)
  let ?st2 = "subscribeToCart (Some uid) (subscribeToCart (Some uid) st)"
  have i2: "store_inv ?st2" by (intro inv_subscribe i)
  have l2: "live (snd ?st2) = [(next_handle (snd st) + 1, uid)]"
    using subscribe_twice [OF i, of uid] by simp
  note c2 = inv_opened_cancelled [OF i2 l2]
  let ?stn = "(subscribeToCart (Some uid) ^^ Suc n) st"
  have i3: "store_inv ?stn"
    using subscribe_repeatedly [OF i, where uid = uid and k = "Suc n"] by simp
  have l3: "live (snd ?stn) = [(next_handle (snd st) + n, uid)]"
    by (rule live_subscribe_repeatedly [OF i])
  note c3 = inv_opened_cancelled [OF i3 l3]
  have d: "length (live (snd (loadCart currentUser cartDoc user_then st))) \<le> 1"
    by (rule inv_at_most_one [OF inv_loadCart [OF i]])
  show ?thesis
    unfolding Let_def using a b l2 c2 l3 c3 d events_subscribe [of uid st] by blast
qed

text \<open>
  From the initial state, two calls for the subject \<^verbatim>\<open>u1\<close> open listener 0, cancel it
  and open listener 1, which alone is live; a third call leaves listener 2 alone live.
\<close>

theorem single_live_subscription_witness:
  "reachable initial
   \<and> live (snd (subscribeToCart (Some ''u1'') (subscribeToCart (Some ''u1'') initial)))
       = [(1, ''u1'')]
   \<and> events (snd (subscribeToCart (Some ''u1'') (subscribeToCart (Some ''u1'') initial)))
       = [Opened 0 ''u1'', Cancelled 0, Opened 1 ''u1'']
   \<and> live (snd (subscribeToCart (Some ''u1'')
                  (subscribeToCart (Some ''u1'') (subscribeToCart (Some ''u1'') initial))))
       = [(2, ''u1'')]
   \<and> length (live (snd (loadCart (Some ''u1'') (Inr None) (Some ''u1'') initial))) \<le> 1"
proof -
  have r: "reachable initial" by (rule reachable.init)
  have e: "events (snd (subscribeToCart (Some ''u1'') (subscribeToCart (Some ''u1'') initial)))
       = [Opened 0 ''u1'', Cancelled 0, Opened 1 ''u1'']"
    by (simp add: subscribeToCart_def onSnapshot_def cancel_def initial_def Let_def)
  have n: "next_handle (snd initial) = 0" by (simp add: initial_def)
  have f: "(subscribeToCart (Some ''u1'') ^^ Suc 2) initial
             = subscribeToCart (Some ''u1'')
                 (subscribeToCart (Some ''u1'') (subscribeToCart (Some ''u1'') initial))"
    by (simp add: numeral_2_eq_2)
  from single_live_subscription
         [OF r, of "''u1''" 2 "Some ''u1''" "Inr None" "Some ''u1''"] r e n f
  show ?thesis by (simp add: Let_def)
qed

subsection \<open>Quantity updates\<close>

text \<open>
  C8. For every state of the cart, every item id and every quantity \<open>qty \<le> 0\<close>,
  \<^verbatim>\<open>updateQuantity(id, qty)\<close> leaves the store in the state in which \<^verbatim>\<open>removeFromCart(id)\<close>
  leaves it, whatever the service answers and whether or not a subject is signed in.
\<close>

theorem updateQuantity_nonpositive_is_remove:
  "qty \<le> 0 \<Longrightarrow> updateQuantity svc currentUser i qty s = removeFromCart svc currentUser i s"
  by (simp add: updateQuantity_def removeFromCart_def split: option.splits)

text \<open>
  With a service that removes the item, quantity 0 empties the one-item cart; with the
  service of this repository, quantity 0 stores the same error as a removal does.
\<close>

theorem updateQuantity_nonpositive_is_remove_witness:
  "(0::real) \<le> 0
   \<and> updateQuantity working_service (Some ''u1'') ''p1'' 0 honey_cart = honey_cart\<lparr>cart := []\<rparr>
   \<and> removeFromCart working_service (Some ''u1'') ''p1'' honey_cart = honey_cart\<lparr>cart := []\<rparr>
   \<and> updateQuantity repository_service (Some ''u1'') ''p1'' (- 1) honey_cart
       = removeFromCart repository_service (Some ''u1'') ''p1'' honey_cart"
proof -
  have z: "(0::real) \<le> 0" "(- 1::real) \<le> 0" by simp_all
  have r: "removeFromCart working_service (Some ''u1'') ''p1'' honey_cart = honey_cart\<lparr>cart := []\<rparr>"
    by (simp add: removeFromCart_def working_service_def)
  from updateQuantity_nonpositive_is_remove [OF z(1), of working_service "Some ''u1''" "''p1''" honey_cart]
    updateQuantity_nonpositive_is_remove [OF z(2), of repository_service "Some ''u1''" "''p1''" honey_cart]
  show ?thesis using r by simp
qed

subsection \<open>Derived totals\<close>














end
